theory Spec2Isabelle
  imports Main
begin

section \<open>JavaScript values shared by both modules\<close>

text \<open>
  A value that can be thrown or used to reject a promise: an \<open>Error\<close> object with its
  message, or anything else. The source only ever asks \<open>error instanceof Error\<close> and
  reads \<open>error.message\<close>.
\<close>

datatype js_thrown = JsError string | JsOther

text \<open>The outcome of \<open>await p\<close>: the promise rejects, or resolves with a value.\<close>

datatype 'a awaited = Rejects js_thrown | Resolves 'a

text \<open>\<open>error instanceof Error ? error.message : dflt\<close>\<close>

definition errorMessage :: "js_thrown \<Rightarrow> string \<Rightarrow> string" where
  "errorMessage e dflt = (case e of JsError m \<Rightarrow> m | JsOther \<Rightarrow> dflt)"

text \<open>
  Truthiness of a value of type \<open>string | undefined | null\<close>: absent values and the empty
  string are falsy.
\<close>

definition truthy :: "string option \<Rightarrow> bool" where
  "truthy x = (case x of None \<Rightarrow> False | Some s \<Rightarrow> s \<noteq> [])"

text \<open>\<open>x || dflt\<close> with a string default, and \<open>x || null\<close>.\<close>

definition js_or :: "string option \<Rightarrow> string \<Rightarrow> string" where
  "js_or x dflt = (case x of None \<Rightarrow> dflt | Some s \<Rightarrow> if s = [] then dflt else s)"

definition or_null :: "string option \<Rightarrow> string option" where
  "or_null x = (case x of None \<Rightarrow> None | Some s \<Rightarrow> if s = [] then None else Some s)"

text \<open>
  \<open>String.prototype.slice(start, end)\<close> on integer arguments: a negative index counts from
  the end, both indices are clamped to the string, and an absent \<open>end\<close> is the length.
\<close>

definition js_index :: "nat \<Rightarrow> int \<Rightarrow> nat" where
  "js_index len i = (if i < 0 then nat (max (int len + i) 0) else min (nat i) len)"

definition js_slice :: "'a list \<Rightarrow> int \<Rightarrow> int option \<Rightarrow> 'a list" where
  "js_slice s start end' =
     (let len = length s;
          from = js_index len start;
          to = (case end' of None \<Rightarrow> len | Some e \<Rightarrow> js_index len e)
      in take (to - from) (drop from s))"

section \<open>services/blockchain.ts\<close>

datatype PropertyStatus = Available | Booked | Maintenance | Inactive

record BlockchainData =
  id' :: string
  data_hash :: string
  owner :: string
  status :: PropertyStatus

record BlockchainVerificationResult =
  isValid :: bool
  blockchainData :: "BlockchainData option"

record PropertyBlockchainStatus =
  isVerified :: bool
  blockchainHash :: "string option"
  lastVerified :: "string option"
  error :: "string option"

text \<open>
  The envelope that \<open>apiUtils.request\<close> is instantiated with in
  \<open>verifyPropertyWithBlockchain\<close>. \<open>data\<close> is an option because the source tests it for
  presence.
\<close>

record VerifyEnvelope =
  success :: bool
  data :: "BlockchainVerificationResult option"
  error :: "string option"
  message :: "string option"

text \<open>
  \<open>apiUtils.request\<close> is an external collaborator: it is a parameter, mapping the request
  path to the outcome of awaiting the call. The resolved value is an option because the
  source reads it through \<open>result?.\<close>.
\<close>

type_synonym api_request = "string \<Rightarrow> VerifyEnvelope option awaited"

text \<open>The \<open>try\<close> block of \<open>verifyPropertyWithBlockchain\<close>; \<open>Inl\<close> is a throw.\<close>

definition verifyPropertyWithBlockchain_try ::
    "api_request \<Rightarrow> string \<Rightarrow> js_thrown + BlockchainVerificationResult" where
  "verifyPropertyWithBlockchain_try request propertyId =
     (case request (''/properties/'' @ propertyId @ ''/verify'') of
        Rejects e \<Rightarrow> Inl e
      | Resolves result \<Rightarrow>
          (case result of
             None \<Rightarrow> Inl (JsError ''Verification failed'')
           | Some r \<Rightarrow>
               (if success r then
                  (case data r of
                     Some d \<Rightarrow> Inr d
                   | None \<Rightarrow> Inl (JsError (js_or (VerifyEnvelope.error r) ''Verification failed'')))
                else Inl (JsError (js_or (VerifyEnvelope.error r) ''Verification failed'')))))"

text \<open>The whole function: the \<open>catch\<close> block turns every throw into a result.\<close>

definition verifyPropertyWithBlockchain ::
    "api_request \<Rightarrow> string \<Rightarrow> js_thrown + BlockchainVerificationResult" where
  "verifyPropertyWithBlockchain request propertyId =
     (case verifyPropertyWithBlockchain_try request propertyId of
        Inr d \<Rightarrow> Inr d
      | Inl e \<Rightarrow> Inr \<lparr>isValid = False, blockchainData = None\<rparr>)"

text \<open>
  \<open>getPropertyBlockchainStatus\<close>; \<open>now\<close> is the value of \<open>new Date().toISOString()\<close>.
  The second branch is the \<open>catch\<close> block, which leaves \<open>blockchainHash\<close> and
  \<open>lastVerified\<close> out of the object.
\<close>

definition getPropertyBlockchainStatus ::
    "api_request \<Rightarrow> string \<Rightarrow> string \<Rightarrow> PropertyBlockchainStatus" where
  "getPropertyBlockchainStatus request now propertyId =
     (case verifyPropertyWithBlockchain request propertyId of
        Inr verificationResult \<Rightarrow>
          \<lparr>isVerified = isValid verificationResult,
           blockchainHash = map_option data_hash (blockchainData verificationResult),
           lastVerified = Some now,
           PropertyBlockchainStatus.error =
             (if isValid verificationResult then None
              else Some ''Data integrity check failed'')\<rparr>
      | Inl e \<Rightarrow>
          \<lparr>isVerified = False,
           blockchainHash = None,
           lastVerified = None,
           PropertyBlockchainStatus.error = Some (errorMessage e ''Unknown error'')\<rparr>)"

text \<open>
  The display record of \<open>formatBlockchainStatus\<close>. The three icons are the emoji literals
  of the source (cross mark, check mark, warning sign), named here.
\<close>

datatype Color = green | red | yellow

datatype Icon = CrossMark | CheckMark | WarningSign

record StatusDisplay =
  text' :: string
  color :: Color
  icon :: Icon

definition formatBlockchainStatus :: "PropertyBlockchainStatus \<Rightarrow> StatusDisplay" where
  "formatBlockchainStatus st =
     (if truthy (PropertyBlockchainStatus.error st) then
        \<lparr>text' = ''Verification Failed'', color = red, icon = CrossMark\<rparr>
      else if isVerified st then
        \<lparr>text' = ''Verified on Blockchain'', color = green, icon = CheckMark\<rparr>
      else
        \<lparr>text' = ''Not Verified'', color = yellow, icon = WarningSign\<rparr>)"

text \<open>\<open>truncateHash(hash, length)\<close> for an integer \<open>length\<close>.\<close>

definition truncateHash :: "string \<Rightarrow> int \<Rightarrow> string" where
  "truncateHash hash length' =
     (if int (length hash) \<le> length' * 2 then hash
      else js_slice hash 0 (Some length') @ ''...'' @ js_slice hash (- length') None)"

text \<open>\<open>.replace(/\/+$/, '')\<close>: the run of slashes that ends the string is removed.\<close>

definition stripTrailingSlashes :: "string \<Rightarrow> string" where
  "stripTrailingSlashes s = rev (dropWhile (\<lambda>c. c = CHR ''/'') (rev s))"

datatype ExplorerResource = tx | contract | account | asset

datatype StellarNetwork = testnet | public

fun resourceName :: "ExplorerResource \<Rightarrow> string" where
  "resourceName tx = ''tx''"
| "resourceName contract = ''contract''"
| "resourceName account = ''account''"
| "resourceName asset = ''asset''"

fun networkName :: "StellarNetwork \<Rightarrow> string" where
  "networkName testnet = ''testnet''"
| "networkName public = ''public''"

record ExplorerOpts =
  resourceType :: "ExplorerResource option"
  network :: "StellarNetwork option"
  baseUrl :: "string option"

text \<open>\<open>process.env\<close>: a variable is absent or holds a string.\<close>

type_synonym process_env = "string \<Rightarrow> string option"

text \<open>\<open>opts?.field\<close> for an optional \<open>opts\<close>.\<close>

definition optField :: "'o option \<Rightarrow> ('o \<Rightarrow> 'a option) \<Rightarrow> 'a option" where
  "optField opts field = (case opts of None \<Rightarrow> None | Some o' \<Rightarrow> field o')"

definition getBlockchainExplorerUrl ::
    "process_env \<Rightarrow> string \<Rightarrow> ExplorerOpts option \<Rightarrow> string" where
  "getBlockchainExplorerUrl env resourceId opts =
     (let base = stripTrailingSlashes
                   (js_or (optField opts baseUrl)
                      (js_or (env ''NEXT_PUBLIC_STELLAR_EXPLORER_URL'')
                         ''https://stellar.expert/explorer''));
          network = js_or (map_option networkName (optField opts ExplorerOpts.network))
                      (js_or (env ''NEXT_PUBLIC_STELLAR_NETWORK'') ''testnet'');
          type = js_or (map_option resourceName (optField opts resourceType)) ''tx''
      in base @ ''/'' @ network @ ''/'' @ type @ ''/'' @ resourceId)"

section \<open>The wallet hook \<open>useWallet\<close>\<close>

text \<open>
  Modelled from the spec: the result shapes of the functions of \<open>lib/freighter-utils\<close>
  and of \<open>getUSDCBalance\<close> (\<open>lib/stellar\<close>), whose declarations are not part of the
  sources at hand. The spec gives
  \<open>checkFreighterConnection() -> {isInstalled, isConnected, error?}\<close>,
  \<open>checkFreighterPermission() -> {isAllowed}\<close>,
  \<open>connectFreighter() -> {address?, error?}\<close>,
  \<open>getFreighterAddress() -> {address?}\<close>,
  \<open>getFreighterNetwork() -> {network?, networkPassphrase?}\<close> and
  \<open>getUSDCBalance(address) -> string|null\<close>.
  The fields carry a prefix, since the hook's own state uses the same names.
\<close>

record ConnectionStatus =
  cs_isInstalled :: bool
  cs_isConnected :: bool
  cs_error :: "string option"

record PermissionStatus =
  ps_isAllowed :: bool

record ConnectResult =
  cr_address :: "string option"
  cr_error :: "string option"

record AddressResult =
  ar_address :: "string option"

record NetworkResult =
  nr_network :: "string option"
  nr_networkPassphrase :: "string option"

record WalletState =
  isConnected :: bool
  publicKey :: "string option"
  network :: "string option"
  networkPassphrase :: "string option"
  isInstalled :: bool
  isAllowed :: bool
  isLoading :: bool
  error :: "string option"
  usdcBalance :: "string option"

text \<open>The argument of \<open>useState\<close>.\<close>

definition initialState :: WalletState where
  "initialState =
     \<lparr>isConnected = False, publicKey = None, network = None, networkPassphrase = None,
      isInstalled = False, isAllowed = False, isLoading = True, error = None,
      usdcBalance = None\<rparr>"

text \<open>
  What the outside world answers during one run of an operation: the outcome of each
  awaited call, the outcome of each awaited \<open>Promise.all\<close>, and the value of the
  \<open>mounted\<close> flag of the effect when the \<open>k\<close>-th await of \<open>initializeWallet\<close> settles
  (1: connection check, 2: permission check, 3: address and network, 4: balance).
\<close>

record externals =
  checkFreighterConnection :: "ConnectionStatus awaited"
  checkFreighterPermission :: "PermissionStatus awaited"
  connectFreighter :: "ConnectResult awaited"
  getFreighterNetwork :: "NetworkResult awaited"
  getUSDCBalance :: "string \<Rightarrow> string option awaited"
  addressAndNetwork :: "(AddressResult \<times> NetworkResult) awaited"
  connectionAddressAndNetwork :: "(ConnectionStatus \<times> AddressResult \<times> NetworkResult) awaited"
  mounted :: "nat \<Rightarrow> bool"

text \<open>The calls made to the extension and to the balance service, in order.\<close>

datatype ext_call =
    CheckFreighterConnection
  | CheckFreighterPermission
  | ConnectFreighter
  | GetFreighterAddress
  | GetFreighterNetwork
  | GetUSDCBalance string

text \<open>The argument of a \<open>setWalletState\<close> call, as a function of the previous state.\<close>

type_synonym update = "WalletState \<Rightarrow> WalletState"

text \<open>The object committed by the connected branch of \<open>initializeWallet\<close>.\<close>

definition initConnectedState ::
    "AddressResult \<Rightarrow> NetworkResult \<Rightarrow> string option \<Rightarrow> WalletState" where
  "initConnectedState addressResult networkResult balance =
     \<lparr>isConnected = True,
      publicKey = or_null (ar_address addressResult),
      network = or_null (nr_network networkResult),
      networkPassphrase = or_null (nr_networkPassphrase networkResult),
      isInstalled = True,
      isAllowed = True,
      isLoading = False,
      error = None,
      usdcBalance = balance\<rparr>"

text \<open>
  The \<open>try\<close> block of \<open>initializeWallet\<close>. It ends in a throw at the \<open>k\<close>-th await
  (\<open>Inl (e, k)\<close>), in a \<open>return\<close> without a commit (\<open>Inr None\<close>), or in its one
  \<open>setWalletState\<close> call.
\<close>

definition initializeWallet_try ::
    "externals \<Rightarrow> ((js_thrown \<times> nat) + update option) \<times> ext_call list" where
  "initializeWallet_try ext =
     (case checkFreighterConnection ext of
        Rejects e \<Rightarrow> (Inl (e, 1), [CheckFreighterConnection])
      | Resolves connectionStatus \<Rightarrow>
          if \<not> mounted ext 1 then (Inr None, [CheckFreighterConnection])
          else if \<not> cs_isInstalled connectionStatus then
            (Inr (Some (\<lambda>prev. prev
               \<lparr>isInstalled := False,
                isLoading := False,
                error := Some (js_or (cs_error connectionStatus) ''Freighter not installed'')\<rparr>)),
             [CheckFreighterConnection])
          else
            (case checkFreighterPermission ext of
               Rejects e \<Rightarrow> (Inl (e, 2), [CheckFreighterConnection, CheckFreighterPermission])
             | Resolves permissionStatus \<Rightarrow>
                 if \<not> mounted ext 2 then
                   (Inr None, [CheckFreighterConnection, CheckFreighterPermission])
                 else
                   (let allowed = ps_isAllowed permissionStatus;
                        connected = (cs_isConnected connectionStatus \<and> allowed)
                    in if connected then
                         (case addressAndNetwork ext of
                            Rejects e \<Rightarrow>
                              (Inl (e, 3),
                               [CheckFreighterConnection, CheckFreighterPermission,
                                GetFreighterAddress, GetFreighterNetwork])
                          | Resolves (addressResult, networkResult) \<Rightarrow>
                              if \<not> mounted ext 3 then
                                (Inr None,
                                 [CheckFreighterConnection, CheckFreighterPermission,
                                  GetFreighterAddress, GetFreighterNetwork])
                              else
                                (case or_null (ar_address addressResult) of
                                   None \<Rightarrow>
                                     (Inr (Some (\<lambda>prev.
                                        initConnectedState addressResult networkResult None)),
                                      [CheckFreighterConnection, CheckFreighterPermission,
                                       GetFreighterAddress, GetFreighterNetwork])
                                 | Some key \<Rightarrow>
                                     (case getUSDCBalance ext key of
                                        Rejects e \<Rightarrow>
                                          (Inl (e, 4),
                                           [CheckFreighterConnection, CheckFreighterPermission,
                                            GetFreighterAddress, GetFreighterNetwork,
                                            GetUSDCBalance key])
                                      | Resolves balance \<Rightarrow>
                                          (Inr (Some (\<lambda>prev.
                                             initConnectedState addressResult networkResult
                                               balance)),
                                           [CheckFreighterConnection, CheckFreighterPermission,
                                            GetFreighterAddress, GetFreighterNetwork,
                                            GetUSDCBalance key]))))
                       else
                         (Inr (Some (\<lambda>prev. prev
                            \<lparr>isConnected := False,
                             isInstalled := True,
                             isAllowed := allowed,
                             isLoading := False,
                             error := None,
                             usdcBalance := None\<rparr>)),
                          [CheckFreighterConnection, CheckFreighterPermission]))))"

text \<open>
  \<open>initializeWallet\<close> with its \<open>catch\<close> block, which commits only while \<open>mounted\<close> holds.
  \<open>prev\<close> is the state at the time of the commit.
\<close>

definition initializeWallet :: "externals \<Rightarrow> WalletState \<Rightarrow> WalletState \<times> ext_call list" where
  "initializeWallet ext prev =
     (case initializeWallet_try ext of
        (Inr None, calls) \<Rightarrow> (prev, calls)
      | (Inr (Some upd), calls) \<Rightarrow> (upd prev, calls)
      | (Inl (e, k), calls) \<Rightarrow>
          (if mounted ext k then
             prev\<lparr>isInstalled := False,
                  isLoading := False,
                  error := Some (errorMessage e ''Unknown error''),
                  usdcBalance := None\<rparr>
           else prev,
           calls))"

text \<open>
  The \<open>try\<close> block of \<open>getPublicKey\<close>. \<open>walletState\<close> is the state captured by the closure.
  The block throws, returns the known key without a commit, or commits and returns the
  new address.
\<close>

definition getPublicKey_try ::
    "externals \<Rightarrow> WalletState \<Rightarrow> (js_thrown + update option \<times> string) \<times> ext_call list" where
  "getPublicKey_try ext walletState =
     (case (if isConnected walletState then or_null (publicKey walletState) else None) of
        Some key \<Rightarrow> (Inr (None, key), [])
      | None \<Rightarrow>
          (case connectFreighter ext of
             Rejects e \<Rightarrow> (Inl e, [ConnectFreighter])
           | Resolves connectResult \<Rightarrow>
               (case or_null (cr_error connectResult) of
                  Some err \<Rightarrow> (Inl (JsError err), [ConnectFreighter])
                | None \<Rightarrow>
                    (case or_null (cr_address connectResult) of
                       None \<Rightarrow>
                         (Inl (JsError ''No address returned from Freighter''),
                          [ConnectFreighter])
                     | Some address \<Rightarrow>
                         (case getFreighterNetwork ext of
                            Rejects e \<Rightarrow> (Inl e, [ConnectFreighter, GetFreighterNetwork])
                          | Resolves networkResult \<Rightarrow>
                              (case getUSDCBalance ext address of
                                 Rejects e \<Rightarrow>
                                   (Inl e,
                                    [ConnectFreighter, GetFreighterNetwork,
                                     GetUSDCBalance address])
                               | Resolves balance \<Rightarrow>
                                   (Inr (Some (\<lambda>prev. prev
                                      \<lparr>isConnected := True,
                                       publicKey := or_null (cr_address connectResult),
                                       network := or_null (nr_network networkResult),
                                       networkPassphrase :=
                                         or_null (nr_networkPassphrase networkResult),
                                       isInstalled := True,
                                       isAllowed := True,
                                       error := None,
                                       usdcBalance := balance\<rparr>),
                                      address),
                                    [ConnectFreighter, GetFreighterNetwork,
                                     GetUSDCBalance address])))))))"

text \<open>
  \<open>getPublicKey\<close>: the new state, the calls made, and the returned key or the rethrown
  value.
\<close>

definition getPublicKey ::
    "externals \<Rightarrow> WalletState \<Rightarrow> WalletState \<Rightarrow>
     WalletState \<times> ext_call list \<times> (js_thrown + string)" where
  "getPublicKey ext walletState prev =
     (case getPublicKey_try ext walletState of
        (Inr (None, key), calls) \<Rightarrow> (prev, calls, Inr key)
      | (Inr (Some upd, key), calls) \<Rightarrow> (upd prev, calls, Inr key)
      | (Inl e, calls) \<Rightarrow>
          (prev\<lparr>error := Some (errorMessage e ''Failed to get public key''),
                usdcBalance := None\<rparr>,
           calls, Inl e))"

text \<open>
  \<open>connect\<close>: the first commit, \<open>getPublicKey\<close> of the same closure, the \<open>catch\<close> commit on a
  throw, and the \<open>finally\<close> commit on every path.
\<close>

definition connect ::
    "externals \<Rightarrow> WalletState \<Rightarrow> WalletState \<times> ext_call list \<times> (js_thrown + unit)" where
  "connect ext walletState =
     (case getPublicKey ext walletState (walletState\<lparr>isLoading := True, error := None\<rparr>) of
        (s, calls, Inr key) \<Rightarrow> (s\<lparr>isLoading := False\<rparr>, calls, Inr ())
      | (s, calls, Inl e) \<Rightarrow>
          (s\<lparr>isLoading := False, error := Some (errorMessage e ''Failed to connect'')\<rparr>
            \<lparr>isLoading := False\<rparr>,
           calls, Inl e))"

definition disconnect :: "WalletState \<Rightarrow> WalletState \<times> ext_call list" where
  "disconnect prev =
     (prev\<lparr>isConnected := False,
           publicKey := None,
           network := None,
           networkPassphrase := None,
           usdcBalance := None\<rparr>,
      [])"

text \<open>The object committed by the \<open>try\<close> block of \<open>refreshConnection\<close>.\<close>

definition refreshedState ::
    "ConnectionStatus \<Rightarrow> AddressResult \<Rightarrow> NetworkResult \<Rightarrow> string option \<Rightarrow> WalletState" where
  "refreshedState connectionStatus addressResult networkResult balance =
     \<lparr>isConnected = (cs_isConnected connectionStatus \<and> truthy (ar_address addressResult)),
      publicKey = or_null (ar_address addressResult),
      network = or_null (nr_network networkResult),
      networkPassphrase = or_null (nr_networkPassphrase networkResult),
      isInstalled = cs_isInstalled connectionStatus,
      isAllowed = truthy (ar_address addressResult),
      isLoading = False,
      error = None,
      usdcBalance = balance\<rparr>"

definition refreshConnection_try ::
    "externals \<Rightarrow> (js_thrown + WalletState) \<times> ext_call list" where
  "refreshConnection_try ext =
     (case connectionAddressAndNetwork ext of
        Rejects e \<Rightarrow>
          (Inl e, [CheckFreighterConnection, GetFreighterAddress, GetFreighterNetwork])
      | Resolves (connectionStatus, addressResult, networkResult) \<Rightarrow>
          (case or_null (ar_address addressResult) of
             None \<Rightarrow>
               (Inr (refreshedState connectionStatus addressResult networkResult None),
                [CheckFreighterConnection, GetFreighterAddress, GetFreighterNetwork])
           | Some key \<Rightarrow>
               (case getUSDCBalance ext key of
                  Rejects e \<Rightarrow>
                    (Inl e,
                     [CheckFreighterConnection, GetFreighterAddress, GetFreighterNetwork,
                      GetUSDCBalance key])
                | Resolves balance \<Rightarrow>
                    (Inr (refreshedState connectionStatus addressResult networkResult balance),
                     [CheckFreighterConnection, GetFreighterAddress, GetFreighterNetwork,
                      GetUSDCBalance key]))))"

definition refreshConnection ::
    "externals \<Rightarrow> WalletState \<Rightarrow> WalletState \<times> ext_call list" where
  "refreshConnection ext prev =
     (case refreshConnection_try ext of
        (Inr s, calls) \<Rightarrow> (s, calls)
      | (Inl e, calls) \<Rightarrow>
          (prev\<lparr>isLoading := True\<rparr>
             \<lparr>isLoading := False,
              error := Some (errorMessage e ''Failed to refresh connection''),
              usdcBalance := None\<rparr>,
           calls))"

text \<open>
  The operations of the hook, each with the answers of the outside world for that run,
  and the state after a sequence of them, one after another from the initial state.
\<close>

datatype wallet_op =
    Initialize externals
  | GetPublicKey externals
  | Connect externals
  | Disconnect
  | RefreshConnection externals

fun apply_op :: "WalletState \<Rightarrow> wallet_op \<Rightarrow> WalletState" where
  "apply_op s (Initialize ext) = fst (initializeWallet ext s)"
| "apply_op s (GetPublicKey ext) = fst (getPublicKey ext s s)"
| "apply_op s (Connect ext) = fst (connect ext s)"
| "apply_op s Disconnect = fst (disconnect s)"
| "apply_op s (RefreshConnection ext) = fst (refreshConnection ext s)"

definition run :: "wallet_op list \<Rightarrow> WalletState" where
  "run ops = foldl apply_op initialState ops"


section \<open>Concrete inputs\<close>

text \<open>
  A wallet that is installed, connected and allowed, answers every call, and a component
  that stays mounted.
\<close>

definition sampleNetwork :: NetworkResult where
  "sampleNetwork =
     \<lparr>nr_network = Some ''TESTNET'',
      nr_networkPassphrase = Some ''Test SDF Network ; September 2015''\<rparr>"

definition sampleConnection :: ConnectionStatus where
  "sampleConnection = \<lparr>cs_isInstalled = True, cs_isConnected = True, cs_error = None\<rparr>"

definition sampleExternals :: externals where
  "sampleExternals =
     \<lparr>checkFreighterConnection = Resolves sampleConnection,
      checkFreighterPermission = Resolves \<lparr>ps_isAllowed = True\<rparr>,
      connectFreighter = Resolves \<lparr>cr_address = Some ''GABC'', cr_error = None\<rparr>,
      getFreighterNetwork = Resolves sampleNetwork,
      getUSDCBalance = (\<lambda>key. Resolves (Some ''10.50'')),
      addressAndNetwork = Resolves (\<lparr>ar_address = Some ''GABC''\<rparr>, sampleNetwork),
      connectionAddressAndNetwork =
        Resolves (sampleConnection, \<lparr>ar_address = Some ''GABC''\<rparr>, sampleNetwork),
      mounted = (\<lambda>k. True)\<rparr>"



text \<open>The same wallet when the balance lookup rejects.\<close>

definition externalsBalanceFails :: externals where
  "externalsBalanceFails =
     sampleExternals\<lparr>getUSDCBalance := (\<lambda>key. Rejects (JsError ''Horizon unavailable''))\<rparr>"

text \<open>The component is unmounted before any await of the initialization settles.\<close>

definition unmounted :: "nat \<Rightarrow> bool" where
  "unmounted k = False"

text \<open>No extension: the connection check reports \<open>isInstalled: false\<close> with a reason.\<close>

definition externalsNotInstalled :: externals where
  "externalsNotInstalled =
     sampleExternals\<lparr>checkFreighterConnection :=
       Resolves \<lparr>cs_isInstalled = False, cs_isConnected = False,
                 cs_error = Some ''Freighter is not installed''\<rparr>\<rparr>"

text \<open>The same, with the component unmounted while the connection check is pending.\<close>

definition externalsNotInstalledUnmounted :: externals where
  "externalsNotInstalledUnmounted = externalsNotInstalled\<lparr>mounted := unmounted\<rparr>"

text \<open>
  The connection check rejects, with the component unmounted while the check is pending.
\<close>

definition externalsRejectedUnmounted :: externals where
  "externalsRejectedUnmounted =
     sampleExternals\<lparr>checkFreighterConnection := Rejects (JsError ''Extension crashed''),
                     mounted := unmounted\<rparr>"

text \<open>A backend that answers \<open>{success: false}\<close>, and one that answers with valid data.\<close>

definition failureResponse :: api_request where
  "failureResponse path =
     Resolves (Some \<lparr>success = False, data = None, VerifyEnvelope.error = None,
                     message = None\<rparr>)"

definition sampleData :: BlockchainVerificationResult where
  "sampleData =
     \<lparr>isValid = True,
      blockchainData =
        Some \<lparr>id' = ''p1'', data_hash = ''a1b2c3'', owner = ''GABC'', status = Available\<rparr>\<rparr>"

definition successResponse :: api_request where
  "successResponse path =
     Resolves (Some \<lparr>success = True, data = Some sampleData, VerifyEnvelope.error = None,
                     message = None\<rparr>)"

text \<open>An environment in which every variable is set to \<open>contract\<close>, and an empty one.\<close>

definition envAllContract :: process_env where
  "envAllContract name = Some ''contract''"

definition envEmpty :: process_env where
  "envEmpty name = None"

text \<open>
  The fallback chain in the words of the specification: the explicit option, then the
  environment configuration, then the hard-coded default, a value counting as given when
  it is a non-empty string.
\<close>

definition fallback :: "string option \<Rightarrow> string option \<Rightarrow> string \<Rightarrow> string" where
  "fallback explicit configured dflt =
     (if truthy explicit then the explicit
      else if truthy configured then the configured
      else dflt)"

section \<open>Properties of \<open>services/blockchain.ts\<close>\<close>

subsection \<open>\<open>truncateHash\<close>\<close>

lemma js_slice_prefix: "0 \<le> n \<Longrightarrow> js_slice h 0 (Some n) = take (nat n) h"
  by (simp add: js_slice_def js_index_def Let_def min_def)

lemma js_slice_suffix: "0 < n \<Longrightarrow> js_slice h (- n) None = drop (length h - nat n) h"
  by (auto simp add: js_slice_def js_index_def Let_def max_def nat_diff_distrib' nat_add_distrib)

text \<open>
  For a positive length the function is the identity on a hash of at most twice that
  length, and otherwise joins the first and the last \<open>length\<close> characters around an
  ellipsis, which gives \<open>2 * length + 3\<close> characters.
\<close>

lemma truncateHash_positive:
  assumes "0 < n"
  shows "truncateHash h n =
     (if int (length h) \<le> 2 * n then h
      else take (nat n) h @ ''...'' @ drop (length h - nat n) h)"
  using assms by (simp add: truncateHash_def js_slice_prefix js_slice_suffix mult.commute)

lemma truncateHash_positive_length:
  assumes "0 < n" "2 * n < int (length h)"
  shows "int (length (truncateHash h n)) = 2 * n + 3"
  using assms by (simp add: truncateHash_positive)

text \<open>
  At length 0 the suffix is \<open>hash.slice(-0)\<close>, which is \<open>hash.slice(0)\<close>: the whole
  hash follows the ellipsis.
\<close>

lemma truncateHash_zero: "truncateHash h 0 = (if h = [] then [] else ''...'' @ h)"
  by (simp add: truncateHash_def js_slice_def js_index_def)

text \<open>
  C3, at the input \<open>truncateHash("abc", 0)\<close>: the hash is longer than \<open>2 * 0\<close>, and the
  result is the ellipsis followed by the whole hash, six characters, not the ellipsis
  alone.
\<close>

theorem truncateHash_zero_length: "truncateHash ''abc'' 0 = ''...abc''"
  by (simp add: truncateHash_def js_slice_def js_index_def)

subsection \<open>\<open>verifyPropertyWithBlockchain\<close>\<close>

lemma verifyPropertyWithBlockchain_returns:
  "\<exists>r. verifyPropertyWithBlockchain request propertyId = Inr r"
  by (simp add: verifyPropertyWithBlockchain_def split: sum.splits)

text \<open>
  C4: for every property id and every outcome of the request,
  \<open>verifyPropertyWithBlockchain\<close> returns a result and throws nothing; when the response
  has \<open>success\<close> true and \<open>data\<close> present the result is that data, unchanged; in every
  other case (a rejected request, no response object, \<open>success\<close> false, \<open>data\<close> missing)
  the result is \<open>{isValid: false, blockchainData: undefined}\<close>.
\<close>

theorem verifyPropertyWithBlockchain_never_throws:
  "(\<exists>r. verifyPropertyWithBlockchain request propertyId = Inr r) \<and>
   (\<forall>r d. request (''/properties/'' @ propertyId @ ''/verify'') = Resolves (Some r) \<and>
          success r \<and> data r = Some d \<longrightarrow>
          verifyPropertyWithBlockchain request propertyId = Inr d) \<and>
   (\<not> (\<exists>r d. request (''/properties/'' @ propertyId @ ''/verify'') = Resolves (Some r) \<and>
             success r \<and> data r = Some d) \<longrightarrow>
      verifyPropertyWithBlockchain request propertyId =
        Inr \<lparr>isValid = False, blockchainData = None\<rparr>)"
proof (intro conjI allI impI)
  show "\<exists>r. verifyPropertyWithBlockchain request propertyId = Inr r"
    by (rule verifyPropertyWithBlockchain_returns)
next
  fix r d
  assume "request (''/properties/'' @ propertyId @ ''/verify'') = Resolves (Some r) \<and>
          success r \<and> data r = Some d"
  then show "verifyPropertyWithBlockchain request propertyId = Inr d"
    by (simp add: verifyPropertyWithBlockchain_def verifyPropertyWithBlockchain_try_def)
next
  assume no: "\<not> (\<exists>r d. request (''/properties/'' @ propertyId @ ''/verify'') = Resolves (Some r) \<and>
             success r \<and> data r = Some d)"
  show "verifyPropertyWithBlockchain request propertyId =
        Inr \<lparr>isValid = False, blockchainData = None\<rparr>"
  proof (cases "request (''/properties/'' @ propertyId @ ''/verify'')")
    case (Rejects e)
    then show ?thesis
      by (simp add: verifyPropertyWithBlockchain_def verifyPropertyWithBlockchain_try_def)
  next
    case (Resolves result)
    with no show ?thesis
      by (auto simp: verifyPropertyWithBlockchain_def verifyPropertyWithBlockchain_try_def
               split: option.splits)
  qed
qed

text \<open>
  C4 at three responses: a successful one, \<open>{success: false}\<close>, and a rejected request.
\<close>

theorem verifyPropertyWithBlockchain_never_throws_witness:
  "verifyPropertyWithBlockchain successResponse ''p1'' = Inr sampleData \<and>
   verifyPropertyWithBlockchain failureResponse ''p1'' =
     Inr \<lparr>isValid = False, blockchainData = None\<rparr> \<and>
   verifyPropertyWithBlockchain (\<lambda>path. Rejects JsOther) ''p1'' =
     Inr \<lparr>isValid = False, blockchainData = None\<rparr>"
  using verifyPropertyWithBlockchain_never_throws [of successResponse "''p1''"]
        verifyPropertyWithBlockchain_never_throws [of failureResponse "''p1''"]
        verifyPropertyWithBlockchain_never_throws [of "\<lambda>path. Rejects JsOther" "''p1''"]
  by (simp add: successResponse_def failureResponse_def)

subsection \<open>\<open>getPropertyBlockchainStatus\<close>\<close>

text \<open>
  C2 as stated fails: for the response \<open>{success: false}\<close> the verification result is
  invalid, and the status still carries the \<open>lastVerified\<close> timestamp.
\<close>

theorem getPropertyBlockchainStatus_invalid_counterexample:
  "verifyPropertyWithBlockchain failureResponse ''p1'' =
     Inr \<lparr>isValid = False, blockchainData = None\<rparr> \<and>
   \<not> isVerified (getPropertyBlockchainStatus failureResponse ''2026-01-01T00:00:00.000Z'' ''p1'') \<and>
   lastVerified (getPropertyBlockchainStatus failureResponse ''2026-01-01T00:00:00.000Z'' ''p1'')
     = Some ''2026-01-01T00:00:00.000Z''"
  by (simp add: getPropertyBlockchainStatus_def verifyPropertyWithBlockchain_def
        verifyPropertyWithBlockchain_try_def failureResponse_def)

text \<open>
  C2, amended: for every property id, the verification call returns a result, and
  \<open>getPropertyBlockchainStatus\<close> stamps \<open>lastVerified\<close> with the current time whether that
  result is valid or not. The status copies \<open>isValid\<close> of the result into \<open>isVerified\<close> and
  the data hash of the result into \<open>blockchainHash\<close>; whenever the result is invalid the
  error is the fixed string "Data integrity check failed", and whenever it is valid there
  is no error.
\<close>

theorem getPropertyBlockchainStatus_stamp_and_error:
  "(\<exists>r. verifyPropertyWithBlockchain request propertyId = Inr r) \<and>
   lastVerified (getPropertyBlockchainStatus request now propertyId) = Some now \<and>
   (\<forall>r. verifyPropertyWithBlockchain request propertyId = Inr r \<longrightarrow>
      isVerified (getPropertyBlockchainStatus request now propertyId) = isValid r \<and>
      blockchainHash (getPropertyBlockchainStatus request now propertyId)
        = map_option data_hash (blockchainData r) \<and>
      (\<not> isValid r \<longrightarrow>
         PropertyBlockchainStatus.error (getPropertyBlockchainStatus request now propertyId)
           = Some ''Data integrity check failed'') \<and>
      (isValid r \<longrightarrow>
         PropertyBlockchainStatus.error (getPropertyBlockchainStatus request now propertyId)
           = None)) \<and>
   (\<not> isVerified (getPropertyBlockchainStatus request now propertyId) \<longrightarrow>
      PropertyBlockchainStatus.error (getPropertyBlockchainStatus request now propertyId)
        = Some ''Data integrity check failed'') \<and>
   (isVerified (getPropertyBlockchainStatus request now propertyId) \<longrightarrow>
      PropertyBlockchainStatus.error (getPropertyBlockchainStatus request now propertyId) = None)"
proof -
  obtain r where r: "verifyPropertyWithBlockchain request propertyId = Inr r"
    using verifyPropertyWithBlockchain_returns by blast
  have ex: "\<exists>r. verifyPropertyWithBlockchain request propertyId = Inr r"
    using r by blast
  have stamp: "lastVerified (getPropertyBlockchainStatus request now propertyId) = Some now"
    by (simp add: getPropertyBlockchainStatus_def r)
  have linked: "\<forall>r'. verifyPropertyWithBlockchain request propertyId = Inr r' \<longrightarrow>
      isVerified (getPropertyBlockchainStatus request now propertyId) = isValid r' \<and>
      blockchainHash (getPropertyBlockchainStatus request now propertyId)
        = map_option data_hash (blockchainData r') \<and>
      (\<not> isValid r' \<longrightarrow>
         PropertyBlockchainStatus.error (getPropertyBlockchainStatus request now propertyId)
           = Some ''Data integrity check failed'') \<and>
      (isValid r' \<longrightarrow>
         PropertyBlockchainStatus.error (getPropertyBlockchainStatus request now propertyId)
           = None)"
    by (simp add: getPropertyBlockchainStatus_def)
  have own: "(\<not> isVerified (getPropertyBlockchainStatus request now propertyId) \<longrightarrow>
      PropertyBlockchainStatus.error (getPropertyBlockchainStatus request now propertyId)
        = Some ''Data integrity check failed'') \<and>
   (isVerified (getPropertyBlockchainStatus request now propertyId) \<longrightarrow>
      PropertyBlockchainStatus.error (getPropertyBlockchainStatus request now propertyId) = None)"
    by (simp add: getPropertyBlockchainStatus_def r)
  show ?thesis
    using ex stamp linked own by blast
qed

text \<open>
  C2, amended, at an invalid verification result (the response \<open>{success: false}\<close>) and at
  a valid one.
\<close>

theorem getPropertyBlockchainStatus_stamp_and_error_witness:
  "verifyPropertyWithBlockchain failureResponse ''p1'' =
     Inr \<lparr>isValid = False, blockchainData = None\<rparr> \<and>
   getPropertyBlockchainStatus failureResponse ''2026-01-01T00:00:00.000Z'' ''p1'' =
     \<lparr>isVerified = False, blockchainHash = None,
      lastVerified = Some ''2026-01-01T00:00:00.000Z'',
      PropertyBlockchainStatus.error = Some ''Data integrity check failed''\<rparr> \<and>
   verifyPropertyWithBlockchain successResponse ''p1'' = Inr sampleData \<and>
   isValid sampleData \<and>
   getPropertyBlockchainStatus successResponse ''2026-01-01T00:00:00.000Z'' ''p1'' =
     \<lparr>isVerified = True, blockchainHash = Some ''a1b2c3'',
      lastVerified = Some ''2026-01-01T00:00:00.000Z'',
      PropertyBlockchainStatus.error = None\<rparr>"
proof -
  have f: "verifyPropertyWithBlockchain failureResponse ''p1'' =
     Inr \<lparr>isValid = False, blockchainData = None\<rparr>"
    by (simp add: verifyPropertyWithBlockchain_def verifyPropertyWithBlockchain_try_def
          failureResponse_def)
  have s: "verifyPropertyWithBlockchain successResponse ''p1'' = Inr sampleData"
    by (simp add: verifyPropertyWithBlockchain_def verifyPropertyWithBlockchain_try_def
          successResponse_def)
  have v: "isValid sampleData \<and>
           map_option data_hash (blockchainData sampleData) = Some ''a1b2c3''"
    by (simp add: sampleData_def)
  have "getPropertyBlockchainStatus failureResponse ''2026-01-01T00:00:00.000Z'' ''p1'' =
     \<lparr>isVerified = False, blockchainHash = None,
      lastVerified = Some ''2026-01-01T00:00:00.000Z'',
      PropertyBlockchainStatus.error = Some ''Data integrity check failed''\<rparr>"
    using f getPropertyBlockchainStatus_stamp_and_error
            [of failureResponse "''p1''" "''2026-01-01T00:00:00.000Z''"]
    by (intro PropertyBlockchainStatus.equality) simp_all
  moreover have
    "getPropertyBlockchainStatus successResponse ''2026-01-01T00:00:00.000Z'' ''p1'' =
     \<lparr>isVerified = True, blockchainHash = Some ''a1b2c3'',
      lastVerified = Some ''2026-01-01T00:00:00.000Z'',
      PropertyBlockchainStatus.error = None\<rparr>"
    using s v getPropertyBlockchainStatus_stamp_and_error
            [of successResponse "''p1''" "''2026-01-01T00:00:00.000Z''"]
    by (intro PropertyBlockchainStatus.equality) simp_all
  ultimately show ?thesis
    using f s v by simp
qed

subsection \<open>\<open>formatBlockchainStatus\<close>\<close>

text \<open>
  C5 as stated fails: a status whose \<open>error\<close> is set to the empty string and whose
  \<open>isVerified\<close> is true is formatted green, not red.
\<close>

theorem formatBlockchainStatus_blank_error_counterexample:
  "PropertyBlockchainStatus.error
     \<lparr>isVerified = True, blockchainHash = None, lastVerified = None,
      PropertyBlockchainStatus.error = Some ''''\<rparr> \<noteq> None \<and>
   formatBlockchainStatus
     \<lparr>isVerified = True, blockchainHash = None, lastVerified = None,
      PropertyBlockchainStatus.error = Some ''''\<rparr>
   = \<lparr>text' = ''Verified on Blockchain'', color = green, icon = CheckMark\<rparr>"
  by (simp add: formatBlockchainStatus_def truthy_def)

text \<open>
  C5, amended: \<open>formatBlockchainStatus\<close> is a total function over three mutually
  exclusive cases. For every status whose \<open>error\<close> is a non-empty string it returns
  red/"Verification Failed", whatever \<open>isVerified\<close> is; for every status without a
  non-empty error and with \<open>isVerified\<close> true it returns green/"Verified on Blockchain";
  for every other status it returns yellow/"Not Verified".
\<close>

theorem formatBlockchainStatus_cases:
  "((\<exists>e. PropertyBlockchainStatus.error st = Some e \<and> e \<noteq> []) \<longrightarrow>
      formatBlockchainStatus st =
        \<lparr>text' = ''Verification Failed'', color = red, icon = CrossMark\<rparr>) \<and>
   (\<not> (\<exists>e. PropertyBlockchainStatus.error st = Some e \<and> e \<noteq> []) \<and> isVerified st \<longrightarrow>
      formatBlockchainStatus st =
        \<lparr>text' = ''Verified on Blockchain'', color = green, icon = CheckMark\<rparr>) \<and>
   (\<not> (\<exists>e. PropertyBlockchainStatus.error st = Some e \<and> e \<noteq> []) \<and> \<not> isVerified st \<longrightarrow>
      formatBlockchainStatus st =
        \<lparr>text' = ''Not Verified'', color = yellow, icon = WarningSign\<rparr>)"
  by (cases "PropertyBlockchainStatus.error st")
     (auto simp: formatBlockchainStatus_def truthy_def)

text \<open>
  C5, amended, at one status of each case; the first has an error and \<open>isVerified\<close> true.
\<close>

theorem formatBlockchainStatus_cases_witness:
  "formatBlockchainStatus
     \<lparr>isVerified = True, blockchainHash = None, lastVerified = None,
      PropertyBlockchainStatus.error = Some ''Data integrity check failed''\<rparr>
     = \<lparr>text' = ''Verification Failed'', color = red, icon = CrossMark\<rparr> \<and>
   formatBlockchainStatus
     \<lparr>isVerified = True, blockchainHash = None, lastVerified = None,
      PropertyBlockchainStatus.error = None\<rparr>
     = \<lparr>text' = ''Verified on Blockchain'', color = green, icon = CheckMark\<rparr> \<and>
   formatBlockchainStatus
     \<lparr>isVerified = False, blockchainHash = None, lastVerified = None,
      PropertyBlockchainStatus.error = None\<rparr>
     = \<lparr>text' = ''Not Verified'', color = yellow, icon = WarningSign\<rparr>"
  using formatBlockchainStatus_cases
          [of "\<lparr>isVerified = True, blockchainHash = None, lastVerified = None,
                PropertyBlockchainStatus.error = Some ''Data integrity check failed''\<rparr>"]
        formatBlockchainStatus_cases
          [of "\<lparr>isVerified = True, blockchainHash = None, lastVerified = None,
                PropertyBlockchainStatus.error = None\<rparr>"]
        formatBlockchainStatus_cases
          [of "\<lparr>isVerified = False, blockchainHash = None, lastVerified = None,
                PropertyBlockchainStatus.error = None\<rparr>"]
  by simp

text \<open>
  C10: a status whose \<open>error\<close> is the empty string is formatted as if it had no error:
  green when \<open>isVerified\<close> is true, yellow otherwise, never red.
\<close>

theorem formatBlockchainStatus_empty_error:
  "PropertyBlockchainStatus.error st = Some [] \<Longrightarrow>
   formatBlockchainStatus st =
     (if isVerified st
      then \<lparr>text' = ''Verified on Blockchain'', color = green, icon = CheckMark\<rparr>
      else \<lparr>text' = ''Not Verified'', color = yellow, icon = WarningSign\<rparr>) \<and>
   color (formatBlockchainStatus st) \<noteq> red"
  by (simp add: formatBlockchainStatus_def truthy_def)

text \<open>
  C10 at a status with an empty error and \<open>isVerified\<close> false.
\<close>

theorem formatBlockchainStatus_empty_error_witness:
  "formatBlockchainStatus
     \<lparr>isVerified = False, blockchainHash = None, lastVerified = None,
      PropertyBlockchainStatus.error = Some ''''\<rparr>
     = \<lparr>text' = ''Not Verified'', color = yellow, icon = WarningSign\<rparr>"
  using formatBlockchainStatus_empty_error
          [of "\<lparr>isVerified = False, blockchainHash = None, lastVerified = None,
                PropertyBlockchainStatus.error = Some ''''\<rparr>"]
  by simp

subsection \<open>\<open>getBlockchainExplorerUrl\<close>\<close>

lemma stripTrailingSlashes_decompose:
  "\<exists>k. stripTrailingSlashes s @ replicate k (CHR ''/'') = s"
proof -
  have "rev s = takeWhile (\<lambda>c. c = CHR ''/'') (rev s) @ dropWhile (\<lambda>c. c = CHR ''/'') (rev s)"
    by simp
  then have "s = rev (dropWhile (\<lambda>c. c = CHR ''/'') (rev s)) @
                 rev (takeWhile (\<lambda>c. c = CHR ''/'') (rev s))"
    by (metis rev_append rev_rev_ident)
  moreover have "takeWhile (\<lambda>c. c = CHR ''/'') (rev s) =
      replicate (length (takeWhile (\<lambda>c. c = CHR ''/'') (rev s))) (CHR ''/'')"
    by (rule replicate_length_same [symmetric]) (auto dest: set_takeWhileD)
  ultimately show ?thesis
    unfolding stripTrailingSlashes_def
    by (metis rev_replicate)
qed

lemma stripTrailingSlashes_no_slash:
  "stripTrailingSlashes s = [] \<or> last (stripTrailingSlashes s) \<noteq> CHR ''/''"
proof (cases "dropWhile (\<lambda>c. c = CHR ''/'') (rev s)")
  case Nil
  then show ?thesis by (simp add: stripTrailingSlashes_def)
next
  case (Cons c cs)
  then have "c \<noteq> CHR ''/''"
    using hd_dropWhile [of "\<lambda>c. c = CHR ''/''" "rev s"] by auto
  with Cons show ?thesis by (simp add: stripTrailingSlashes_def)
qed

lemma js_or_fallback: "js_or a (js_or b d) = fallback a b d"
  by (auto simp: js_or_def fallback_def truthy_def split: option.splits)

lemma js_or_resourceName:
  "js_or (map_option resourceName t) ''tx'' =
     (case t of Some r \<Rightarrow> resourceName r | None \<Rightarrow> ''tx'')"
proof (cases t)
  case None
  then show ?thesis by (simp add: js_or_def)
next
  case (Some r)
  then show ?thesis by (cases r) (simp_all add: js_or_def)
qed

text \<open>
  C9 as stated fails for the resource type: with every environment variable set to
  \<open>contract\<close> and no options, the base and the network come from the environment, and the
  resource type is still \<open>tx\<close>.
\<close>

theorem getBlockchainExplorerUrl_resource_env_counterexample:
  "getBlockchainExplorerUrl envAllContract ''abc'' None = ''contract/contract/tx/abc'' \<and>
   getBlockchainExplorerUrl envAllContract ''abc'' None \<noteq> ''contract/contract/contract/abc''"
  by (simp add: getBlockchainExplorerUrl_def envAllContract_def optField_def js_or_def
        stripTrailingSlashes_def)

text \<open>
  C9, amended: for every resource id the result is \<open>{base}/{network}/{type}/{resourceId}\<close>,
  where the base URL and the network fall back through the explicit option, then the
  environment (\<open>NEXT_PUBLIC_STELLAR_EXPLORER_URL\<close>, \<open>NEXT_PUBLIC_STELLAR_NETWORK\<close>), then
  the defaults \<open>https://stellar.expert/explorer\<close> and \<open>testnet\<close> (an empty string counting
  as not given), the resource type is the explicit option or else \<open>tx\<close>, and \<open>base\<close> is
  the chosen base URL without its trailing slashes. With neither variable set and no
  options the result is \<open>https://stellar.expert/explorer/testnet/tx/<resourceId>\<close>.
\<close>

theorem getBlockchainExplorerUrl_shape:
  "(\<exists>base k.
      getBlockchainExplorerUrl env resourceId opts =
        base @ ''/'' @
        fallback (map_option networkName (optField opts ExplorerOpts.network))
          (env ''NEXT_PUBLIC_STELLAR_NETWORK'') ''testnet'' @ ''/'' @
        (case optField opts resourceType of Some t \<Rightarrow> resourceName t | None \<Rightarrow> ''tx'') @
        ''/'' @ resourceId \<and>
      base @ replicate k (CHR ''/'') =
        fallback (optField opts baseUrl) (env ''NEXT_PUBLIC_STELLAR_EXPLORER_URL'')
          ''https://stellar.expert/explorer'' \<and>
      (base = [] \<or> last base \<noteq> CHR ''/'')) \<and>
   (env ''NEXT_PUBLIC_STELLAR_EXPLORER_URL'' = None \<and>
    env ''NEXT_PUBLIC_STELLAR_NETWORK'' = None \<longrightarrow>
      getBlockchainExplorerUrl env resourceId None =
        ''https://stellar.expert/explorer/testnet/tx/'' @ resourceId)"
proof (rule conjI)
  let ?b = "fallback (optField opts baseUrl) (env ''NEXT_PUBLIC_STELLAR_EXPLORER_URL'')
              ''https://stellar.expert/explorer''"
  obtain k where k: "stripTrailingSlashes ?b @ replicate k (CHR ''/'') = ?b"
    using stripTrailingSlashes_decompose by blast
  have url: "getBlockchainExplorerUrl env resourceId opts =
        stripTrailingSlashes ?b @ ''/'' @
        fallback (map_option networkName (optField opts ExplorerOpts.network))
          (env ''NEXT_PUBLIC_STELLAR_NETWORK'') ''testnet'' @ ''/'' @
        (case optField opts resourceType of Some t \<Rightarrow> resourceName t | None \<Rightarrow> ''tx'') @
        ''/'' @ resourceId"
    by (simp add: getBlockchainExplorerUrl_def Let_def js_or_fallback js_or_resourceName)
  show "\<exists>base k.
      getBlockchainExplorerUrl env resourceId opts =
        base @ ''/'' @
        fallback (map_option networkName (optField opts ExplorerOpts.network))
          (env ''NEXT_PUBLIC_STELLAR_NETWORK'') ''testnet'' @ ''/'' @
        (case optField opts resourceType of Some t \<Rightarrow> resourceName t | None \<Rightarrow> ''tx'') @
        ''/'' @ resourceId \<and>
      base @ replicate k (CHR ''/'') = ?b \<and>
      (base = [] \<or> last base \<noteq> CHR ''/'')"
    using url k stripTrailingSlashes_no_slash [of ?b] by blast
next
  show "env ''NEXT_PUBLIC_STELLAR_EXPLORER_URL'' = None \<and>
    env ''NEXT_PUBLIC_STELLAR_NETWORK'' = None \<longrightarrow>
      getBlockchainExplorerUrl env resourceId None =
        ''https://stellar.expert/explorer/testnet/tx/'' @ resourceId"
    by (simp add: getBlockchainExplorerUrl_def optField_def js_or_def stripTrailingSlashes_def)
qed

text \<open>
  C9, amended, at the two examples of the specification: no environment and no options,
  and explicit options whose base URL ends in a slash.
\<close>

theorem getBlockchainExplorerUrl_shape_witness:
  "getBlockchainExplorerUrl envEmpty ''abc123'' None =
     ''https://stellar.expert/explorer/testnet/tx/abc123'' \<and>
   getBlockchainExplorerUrl envEmpty ''abc''
     (Some \<lparr>resourceType = Some contract, ExplorerOpts.network = Some public,
            baseUrl = Some ''https://x.com/''\<rparr>) =
     ''https://x.com/public/contract/abc''"
proof -
  have e: "envEmpty ''NEXT_PUBLIC_STELLAR_EXPLORER_URL'' = None \<and>
           envEmpty ''NEXT_PUBLIC_STELLAR_NETWORK'' = None"
    by (simp add: envEmpty_def)
  have "getBlockchainExplorerUrl envEmpty ''abc123'' None =
     ''https://stellar.expert/explorer/testnet/tx/abc123''"
    using e getBlockchainExplorerUrl_shape [of envEmpty "''abc123''" None] by simp
  moreover have "getBlockchainExplorerUrl envEmpty ''abc''
     (Some \<lparr>resourceType = Some contract, ExplorerOpts.network = Some public,
            baseUrl = Some ''https://x.com/''\<rparr>) =
     ''https://x.com/public/contract/abc''"
    by (simp add: getBlockchainExplorerUrl_def optField_def js_or_def stripTrailingSlashes_def)
  ultimately show ?thesis by simp
qed

section \<open>Properties of the wallet hook\<close>

subsection \<open>\<open>disconnect\<close>\<close>

text \<open>
  C8: for every prior state, \<open>disconnect\<close> calls nothing outside the hook, sets
  \<open>isConnected\<close> to false and \<open>publicKey\<close>, \<open>network\<close>, \<open>networkPassphrase\<close> and
  \<open>usdcBalance\<close> to null, and leaves \<open>isInstalled\<close> and every other field as it was.
\<close>

theorem disconnect_resets:
  "snd (disconnect prev) = [] \<and>
   isConnected (fst (disconnect prev)) = False \<and>
   publicKey (fst (disconnect prev)) = None \<and>
   network (fst (disconnect prev)) = None \<and>
   networkPassphrase (fst (disconnect prev)) = None \<and>
   usdcBalance (fst (disconnect prev)) = None \<and>
   isInstalled (fst (disconnect prev)) = isInstalled prev \<and>
   isAllowed (fst (disconnect prev)) = isAllowed prev \<and>
   isLoading (fst (disconnect prev)) = isLoading prev \<and>
   error (fst (disconnect prev)) = error prev"
  by (simp add: disconnect_def)

subsection \<open>Connected states\<close>

lemma or_null_Some: "or_null x = Some y \<Longrightarrow> truthy x \<and> x = Some y"
  by (auto simp: or_null_def truthy_def split: option.splits if_splits)

















subsection \<open>Initialization that throws\<close>

text \<open>
  Each of the four awaits of \<open>initializeWallet\<close> throws what its promise rejects with.
\<close>

lemma initializeWallet_try_throw_steps:
  "(checkFreighterConnection ext = Rejects e \<longrightarrow> fst (initializeWallet_try ext) = Inl (e, 1)) \<and>
   (checkFreighterConnection ext = Resolves c \<and> mounted ext 1 \<and> cs_isInstalled c \<and>
    checkFreighterPermission ext = Rejects e \<longrightarrow> fst (initializeWallet_try ext) = Inl (e, 2)) \<and>
   (checkFreighterConnection ext = Resolves c \<and> mounted ext 1 \<and> cs_isInstalled c \<and>
    checkFreighterPermission ext = Resolves p \<and> mounted ext 2 \<and>
    cs_isConnected c \<and> ps_isAllowed p \<and>
    addressAndNetwork ext = Rejects e \<longrightarrow> fst (initializeWallet_try ext) = Inl (e, 3)) \<and>
   (checkFreighterConnection ext = Resolves c \<and> mounted ext 1 \<and> cs_isInstalled c \<and>
    checkFreighterPermission ext = Resolves p \<and> mounted ext 2 \<and>
    cs_isConnected c \<and> ps_isAllowed p \<and>
    addressAndNetwork ext = Resolves (a, n) \<and> mounted ext 3 \<and>
    or_null (ar_address a) = Some key \<and>
    getUSDCBalance ext key = Rejects e \<longrightarrow> fst (initializeWallet_try ext) = Inl (e, 4))"
  by (simp add: initializeWallet_try_def)

text \<open>
  C6 as stated fails. When the balance lookup rejects after another operation has
  committed \<open>isInstalled: true\<close>, the \<open>catch\<close> block sets \<open>isInstalled\<close> to false. When the
  connection check rejects after the component was unmounted, nothing is committed:
  \<open>isLoading\<close> stays true and \<open>error\<close> stays null.
\<close>

theorem initializeWallet_throw_counterexample:
  "fst (initializeWallet_try externalsBalanceFails) = Inl (JsError ''Horizon unavailable'', 4) \<and>
   mounted externalsBalanceFails 4 \<and>
   isInstalled (run [GetPublicKey sampleExternals]) \<and>
   \<not> isInstalled (fst (initializeWallet externalsBalanceFails (run [GetPublicKey sampleExternals]))) \<and>
   fst (initializeWallet_try externalsRejectedUnmounted) = Inl (JsError ''Extension crashed'', 1) \<and>
   isLoading (fst (initializeWallet externalsRejectedUnmounted initialState)) \<and>
   error (fst (initializeWallet externalsRejectedUnmounted initialState)) = None"
  by (simp add: initializeWallet_def initializeWallet_try_def externalsBalanceFails_def
        externalsRejectedUnmounted_def unmounted_def sampleExternals_def sampleConnection_def
        sampleNetwork_def or_null_def run_def initialState_def getPublicKey_def
        getPublicKey_try_def)

text \<open>
  C6, amended: when a step of the initialization throws while the component is still
  mounted, the transition keeps \<open>isConnected\<close>, \<open>publicKey\<close>, \<open>network\<close>,
  \<open>networkPassphrase\<close> and \<open>isAllowed\<close>, sets \<open>isInstalled\<close> to false, clears \<open>usdcBalance\<close>
  and \<open>isLoading\<close>, and sets \<open>error\<close> to the message of the thrown error ("Unknown error"
  when the thrown value is not an \<open>Error\<close>); when the component is no longer mounted the
  state is left as it was.
\<close>

theorem initializeWallet_throw_frame:
  assumes "fst (initializeWallet_try ext) = Inl (e, k)"
  shows "(mounted ext k \<longrightarrow>
            isConnected (fst (initializeWallet ext prev)) = isConnected prev \<and>
            publicKey (fst (initializeWallet ext prev)) = publicKey prev \<and>
            network (fst (initializeWallet ext prev)) = network prev \<and>
            networkPassphrase (fst (initializeWallet ext prev)) = networkPassphrase prev \<and>
            isAllowed (fst (initializeWallet ext prev)) = isAllowed prev \<and>
            isInstalled (fst (initializeWallet ext prev)) = False \<and>
            isLoading (fst (initializeWallet ext prev)) = False \<and>
            error (fst (initializeWallet ext prev)) = Some (errorMessage e ''Unknown error'') \<and>
            usdcBalance (fst (initializeWallet ext prev)) = None) \<and>
         (\<not> mounted ext k \<longrightarrow> fst (initializeWallet ext prev) = prev)"
proof -
  obtain calls where "initializeWallet_try ext = (Inl (e, k), calls)"
    using assms by (cases "initializeWallet_try ext") simp
  then show ?thesis by (simp add: initializeWallet_def)
qed

text \<open>
  C6, amended, at a rejected balance lookup on a connected state, and at a rejected
  connection check after unmounting.
\<close>

theorem initializeWallet_throw_frame_witness:
  "fst (initializeWallet_try externalsBalanceFails) = Inl (JsError ''Horizon unavailable'', 4) \<and>
   mounted externalsBalanceFails 4 \<and>
   isConnected (fst (initializeWallet externalsBalanceFails (run [GetPublicKey sampleExternals]))) \<and>
   publicKey (fst (initializeWallet externalsBalanceFails (run [GetPublicKey sampleExternals])))
     = Some ''GABC'' \<and>
   error (fst (initializeWallet externalsBalanceFails (run [GetPublicKey sampleExternals])))
     = Some ''Horizon unavailable'' \<and>
   usdcBalance (fst (initializeWallet externalsBalanceFails (run [GetPublicKey sampleExternals])))
     = None \<and>
   fst (initializeWallet_try externalsRejectedUnmounted) = Inl (JsError ''Extension crashed'', 1) \<and>
   \<not> mounted externalsRejectedUnmounted 1 \<and>
   fst (initializeWallet externalsRejectedUnmounted initialState) = initialState"
proof -
  have t: "fst (initializeWallet_try externalsBalanceFails) = Inl (JsError ''Horizon unavailable'', 4)"
    by (simp add: initializeWallet_try_def externalsBalanceFails_def sampleExternals_def
          sampleConnection_def or_null_def)
  have m: "mounted externalsBalanceFails 4"
    by (simp add: externalsBalanceFails_def sampleExternals_def)
  have p: "isConnected (run [GetPublicKey sampleExternals]) \<and>
           publicKey (run [GetPublicKey sampleExternals]) = Some ''GABC''"
    by (simp add: run_def initialState_def getPublicKey_def getPublicKey_try_def
          sampleExternals_def or_null_def)
  have u: "fst (initializeWallet_try externalsRejectedUnmounted) = Inl (JsError ''Extension crashed'', 1)"
    by (simp add: initializeWallet_try_def externalsRejectedUnmounted_def)
  have n: "\<not> mounted externalsRejectedUnmounted 1"
    by (simp add: externalsRejectedUnmounted_def unmounted_def)
  show ?thesis
    using t m p u n
      initializeWallet_throw_frame [OF t, of "run [GetPublicKey sampleExternals]"]
      initializeWallet_throw_frame [OF u, of initialState]
    by (simp add: errorMessage_def)
qed

subsection \<open>Initialization without the extension\<close>

text \<open>
  C7 as stated fails: when the component is unmounted while the connection check is
  pending, a run that finds the extension absent commits nothing, and the state keeps
  \<open>isLoading: true\<close> and \<open>error: null\<close>.
\<close>

theorem initializeWallet_absent_unmounted_counterexample:
  "checkFreighterConnection externalsNotInstalledUnmounted =
     Resolves \<lparr>cs_isInstalled = False, cs_isConnected = False,
               cs_error = Some ''Freighter is not installed''\<rparr> \<and>
   isLoading (fst (initializeWallet externalsNotInstalledUnmounted initialState)) \<and>
   error (fst (initializeWallet externalsNotInstalledUnmounted initialState)) = None"
  by (simp add: initializeWallet_def initializeWallet_try_def externalsNotInstalledUnmounted_def
        externalsNotInstalled_def unmounted_def sampleExternals_def initialState_def)

text \<open>
  C7, amended: in every run of the initialization in which the connection check reports
  \<open>isInstalled: false\<close>, the permission, address and network functions are never called;
  if the component is still mounted when the check returns, the final state is the prior
  state with \<open>isInstalled: false\<close>, \<open>isLoading: false\<close> and \<open>error\<close> set to the reported
  reason ("Freighter not installed" when none is reported); otherwise the state is left
  as it was.
\<close>

theorem initializeWallet_not_installed:
  assumes "checkFreighterConnection ext = Resolves connectionStatus"
    and "\<not> cs_isInstalled connectionStatus"
  shows "CheckFreighterPermission \<notin> set (snd (initializeWallet ext prev)) \<and>
         GetFreighterAddress \<notin> set (snd (initializeWallet ext prev)) \<and>
         GetFreighterNetwork \<notin> set (snd (initializeWallet ext prev)) \<and>
         (mounted ext 1 \<longrightarrow>
            fst (initializeWallet ext prev) =
              prev\<lparr>isInstalled := False,
                   isLoading := False,
                   error := Some (js_or (cs_error connectionStatus)
                                    ''Freighter not installed'')\<rparr>) \<and>
         (\<not> mounted ext 1 \<longrightarrow> fst (initializeWallet ext prev) = prev)"
  using assms by (simp add: initializeWallet_def initializeWallet_try_def)

text \<open>
  C7, amended, at an absent extension, mounted and unmounted.
\<close>

theorem initializeWallet_not_installed_witness:
  "snd (initializeWallet externalsNotInstalled initialState) = [CheckFreighterConnection] \<and>
   fst (initializeWallet externalsNotInstalled initialState) =
     initialState\<lparr>isInstalled := False, isLoading := False,
                  error := Some ''Freighter is not installed''\<rparr> \<and>
   fst (initializeWallet externalsNotInstalledUnmounted initialState) = initialState"
proof -
  have c: "checkFreighterConnection externalsNotInstalled =
     Resolves \<lparr>cs_isInstalled = False, cs_isConnected = False,
               cs_error = Some ''Freighter is not installed''\<rparr>"
    by (simp add: externalsNotInstalled_def sampleExternals_def)
  have c': "checkFreighterConnection externalsNotInstalledUnmounted =
     Resolves \<lparr>cs_isInstalled = False, cs_isConnected = False,
               cs_error = Some ''Freighter is not installed''\<rparr>"
    by (simp add: externalsNotInstalledUnmounted_def externalsNotInstalled_def sampleExternals_def)
  have m: "mounted externalsNotInstalled 1 \<and> \<not> mounted externalsNotInstalledUnmounted 1"
    by (simp add: externalsNotInstalledUnmounted_def externalsNotInstalled_def sampleExternals_def
          unmounted_def)
  have calls: "snd (initializeWallet externalsNotInstalled initialState) = [CheckFreighterConnection]"
    by (simp add: initializeWallet_def initializeWallet_try_def c m)
  show ?thesis
    using m calls
      initializeWallet_not_installed [OF c, of initialState]
      initializeWallet_not_installed [OF c', of initialState]
    by (simp add: js_or_def)
qed

end
